theory Spec2Isabelle
  imports Main
begin

section \<open>Admission validation of Longhorn nodes (webhook/resources/node/validator.go)\<close>

text \<open>
  The validator decides, for one admission request, whether a create, update or delete
  of a Node object is accepted. This theory embeds the three entry points \<open>Create\<close>,
  \<open>Update\<close> and \<open>Delete\<close> and the helper \<open>isNodeDiskSpecAndStatusSynced\<close> as HOL
  functions and proves properties of them.

  Conventions of the embedding:
  \<^item> a Go map with string keys is the list of its entries, in the order in which
    \<open>range\<close> visits them; \<open>m[k]\<close> is \<open>map_of m k\<close> and \<open>len(m)\<close> is \<open>length m\<close>.
    The keys of a Go map are distinct and the order of \<open>range\<close> is not fixed; the
    theorems hold for every list, hence for every order;
  \<^item> a \<open>range\<close> loop whose body may return is \<open>range_loop body m\<close>: the result of the
    first iteration that returns, or \<open>None\<close> when the loop runs to its end;
  \<^item> a returned \<open>error\<close> is a \<open>werror option\<close> (\<open>None\<close> is \<open>nil\<close>, the request is accepted);
  \<^item> the reads through the datastore are the fields of a record of functions, one per
    accessor, so that every theorem holds for every cluster state;
  \<^item> Go's \<open>int\<close> and \<open>int64\<close> fields are only ever compared with zero, so they are HOL
    integers.
\<close>

subsection \<open>Data model\<close>

type_synonym 'v gomap = "(string \<times> 'v) list"

text \<open>
  \<open>longhorn.DiskSpec\<close>; \<open>Type\<close> and \<open>DiskDriver\<close> are string types in Go. A field
  whose Go name occurs in two structs carries the struct as a prefix in one of them
  (\<open>Disk_AllowScheduling\<close>, \<open>Spec_Name\<close>, \<open>Cond_Status\<close>), and the field
  \<open>Status.DiskStatus\<close> is \<open>DiskStatuses\<close>, since \<open>DiskStatus\<close> names the struct.
\<close>

record DiskSpec =
  Type :: string
  Path :: string
  DiskDriver :: string
  Disk_AllowScheduling :: bool
  Disk_EvictionRequested :: bool
  StorageReserved :: int
  Disk_Tags :: "string list"

record DiskStatus =
  StorageScheduled :: int

record Condition =
  Cond_Type :: string
  Cond_Status :: string
  Cond_Reason :: string

record NodeSpec =
  Spec_Name :: string
  Disks :: "DiskSpec gomap"
  AllowScheduling :: bool
  EvictionRequested :: bool
  Tags :: "string list"
  InstanceManagerCPURequest :: int

text \<open>
  \<open>Status.DiskStatus\<close> maps a disk name to a reference to its status. The entries that
  are present refer to a status; a name that is absent yields the nil reference.
\<close>

record NodeStatus =
  Conditions :: "Condition list"
  DiskStatuses :: "DiskStatus gomap"

text \<open>
  \<open>longhorn.Node\<close> with the parts of its object metadata that the validator reads.
  \<open>Annotations\<close> is \<open>None\<close> for the nil map.
\<close>

record Node =
  Name :: string
  Annotations :: "(string gomap) option"
  Finalizers :: "string list"
  DeletionTimestamp :: "string option"
  Spec :: NodeSpec
  Status :: NodeStatus

text \<open>A \<open>runtime.Object\<close>: a Node, or an object of some other kind (given by its printed form).\<close>

datatype Object = NodeObj Node | OtherObj string

subsection \<open>Errors, log lines and results\<close>

text \<open>An \<open>error\<close> returned by a collaborator; \<open>ErrNotFound\<close> is the API's not-found error.\<close>

datatype go_error = ErrNotFound string | ErrOther string

fun Error :: "go_error \<Rightarrow> string" where
  "Error (ErrNotFound msg) = msg"
| "Error (ErrOther msg) = msg"

text \<open>
  Modelled from the spec: \<open>datastore.ErrorIsNotFound\<close> is not among the sources. The read of
  the compute node "fails with not-found when the underlying compute node no longer exists".
\<close>

fun ErrorIsNotFound :: "go_error \<Rightarrow> bool" where
  "ErrorIsNotFound (ErrNotFound msg) = True"
| "ErrorIsNotFound (ErrOther msg) = False"

text \<open>
  One constructor per \<open>return\<close> of an error in the source, carrying the values that the
  source formats into the message.
\<close>

datatype reason =
    NotANode string
  | FinalizerCheckFailed string
  | NegativeCPURequest
  | NodeEvictionConflict string
  | TagsInvalid string
  | KubernetesNodeReadFailed string
  | CPUSettingReadFailed string
  | CPUReservationInvalid string
  | EmptySpecName
  | DiskEvictionConflict string
  | SpdkSettingReadFailed string
  | StorageReservedInvalid string string string
  | BlockDiskNotSupported string string
  | BlockDiskSpdkDisabled string string string
  | DiskDriverNotSupported string string
  | DiskRemovalUnsafe string string
  | DiskTypeChanged string string string
  | DisksBeingSynced string
  | ListReplicasFailed string string
  | ListEnginesFailed string string
  | NodeDeletionUnsafe string string string bool nat nat

text \<open>\<open>werror.NewInvalidError\<close> and \<open>werror.NewForbiddenError\<close>.\<close>

datatype werror = InvalidError reason | ForbiddenError reason

datatype log = Warnf string | Infof string

text \<open>
  What a call of \<open>Update\<close> does: it returns its error (or nil), or it panics on reading a
  field through a nil reference.
\<close>

datatype result = Returns "werror option" | Panics

subsection \<open>Collaborators\<close>

record KubeNode =
  AllocatableCPUMilliValue :: int

record Setting =
  Value :: string

text \<open>The read interface of \<open>datastore.DataStore\<close> that the validator uses.\<close>

record DataStore =
  GetSettingAsBool :: "string \<Rightarrow> go_error + bool"
  GetKubernetesNodeRO :: "string \<Rightarrow> go_error + KubeNode"
  GetSettingWithAutoFillingRO :: "string \<Rightarrow> go_error + Setting"
  ListReplicasByNodeRO :: "string \<Rightarrow> go_error + string list"
  ListEnginesByNodeRO :: "string \<Rightarrow> go_error + string list"

text \<open>
  Functions of other packages that are not among the sources and that the spec treats as
  pass/fail primitives: \<open>util.ValidateTags\<close>, \<open>types.ValidateCPUReservationValues\<close>.
  \<open>FormatCPUPercentage request allocatable\<close> stands for the float64 expression
  \<open>fmt.Sprintf("%.0f", math.Round(float64(request)/allocatable*100.0))\<close>, whose arithmetic
  is not modelled.
\<close>

record Packages =
  ValidateTags :: "string list \<Rightarrow> go_error + string list"
  ValidateCPUReservationValues :: "string \<Rightarrow> string \<Rightarrow> go_error option"
  FormatCPUPercentage :: "int \<Rightarrow> int \<Rightarrow> string"

text \<open>
  Modelled from the spec: the constant declarations of packages \<open>longhorn\<close> and \<open>types\<close> are
  not among the sources. The spec names a \<open>Block\<close> disk type, a default disk driver \<open>None\<close>,
  the readiness condition with status "true", the reasons "compute node is gone" and
  "manager pod is missing", the block-device feature flag, the guaranteed-CPU-percentage
  setting and the uninstall marker annotation. No theorem depends on the chosen strings.
\<close>

definition DiskTypeBlock :: string where
  "DiskTypeBlock = ''block''"

definition DiskDriverNone :: string where
  "DiskDriverNone = ''''"

definition ConditionStatusTrue :: string where
  "ConditionStatusTrue = ''True''"

definition NodeConditionTypeReady :: string where
  "NodeConditionTypeReady = ''Ready''"

definition NodeConditionReasonKubernetesNodeGone :: string where
  "NodeConditionReasonKubernetesNodeGone = ''KubernetesNodeGone''"

definition NodeConditionReasonManagerPodMissing :: string where
  "NodeConditionReasonManagerPodMissing = ''ManagerPodMissing''"

definition SettingNameV2DataEngine :: string where
  "SettingNameV2DataEngine = ''v2-data-engine''"

definition SettingNameGuaranteedInstanceManagerCPU :: string where
  "SettingNameGuaranteedInstanceManagerCPU = ''guaranteed-instance-manager-cpu''"

definition DeleteNodeFromLonghorn :: string where
  "DeleteNodeFromLonghorn = ''delete-node-from-longhorn''"

definition GetLonghornLabelKey :: "string \<Rightarrow> string" where
  "GetLonghornLabelKey name = ''longhorn.io/'' @ name"

definition longhornFinalizerKey :: string where
  "longhornFinalizerKey = ''longhorn.io''"

text \<open>
  Modelled from the spec: \<open>types.GetCondition\<close> is not among the sources. The lookup is
  keyed by condition type and returns "a zero-value sentinel when absent", "a
  default-initialized struct".
\<close>

fun GetCondition :: "Condition list \<Rightarrow> string \<Rightarrow> Condition" where
  "GetCondition [] conditionType = \<lparr>Cond_Type = '''', Cond_Status = '''', Cond_Reason = ''''\<rparr>"
| "GetCondition (c # conditions) conditionType =
     (if Cond_Type c = conditionType then c else GetCondition conditions conditionType)"

text \<open>
  Modelled from the spec: \<open>common.IsRemovingLonghornFinalizer\<close> is not among the sources. The
  spec describes the case it recognises as "removal of the control-plane's own finalizer
  marker (i.e., the object is being deleted and the finalizer is being dropped)", and the
  comment at lines 95-96 as "the removal of the longhorn.io finalizer while an object is
  being deleted": the old object is under deletion and holds the finalizer, and the new
  object does not hold it. Nothing else of the two objects is compared. The spec names no
  case in which the check itself fails.
\<close>

definition IsRemovingLonghornFinalizer :: "Node \<Rightarrow> Node \<Rightarrow> go_error + bool" where
  "IsRemovingLonghornFinalizer oldObj newObj =
     Inr (DeletionTimestamp oldObj \<noteq> None
          \<and> longhornFinalizerKey \<in> set (Finalizers oldObj)
          \<and> longhornFinalizerKey \<notin> set (Finalizers newObj))"

subsection \<open>Loops over maps\<close>

fun range_loop :: "('a \<Rightarrow> 'r option) \<Rightarrow> 'a list \<Rightarrow> 'r option" where
  "range_loop body [] = None"
| "range_loop body (x # xs) =
     (case body x of Some r \<Rightarrow> Some r | None \<Rightarrow> range_loop body xs)"

subsection \<open>Create (lines 48-79)\<close>

text \<open>The body of the loop of lines 64-76, for one entry of \<open>node.Spec.Disks\<close>.\<close>

definition Create_disk :: "bool \<Rightarrow> string \<times> DiskSpec \<Rightarrow> werror option" where
  "Create_disk v2DataEngineEnabled entry =
     (case entry of (name, disk) \<Rightarrow>
        if \<not> v2DataEngineEnabled \<and> Type disk = DiskTypeBlock
        then Some (InvalidError (BlockDiskNotSupported name (Type disk)))
        else if Type disk \<noteq> DiskTypeBlock \<and> DiskDriver disk \<noteq> DiskDriverNone
        then Some (InvalidError (DiskDriverNotSupported name (Type disk)))
        else None)"

definition Create :: "DataStore \<Rightarrow> Object \<Rightarrow> werror option" where
  "Create n newObj =
     (case newObj of
        OtherObj printed \<Rightarrow> Some (InvalidError (NotANode printed))
      | NodeObj node \<Rightarrow>
          if InstanceManagerCPURequest (Spec node) < 0
          then Some (InvalidError NegativeCPURequest)
          else (case GetSettingAsBool n SettingNameV2DataEngine of
                  Inl err \<Rightarrow> Some (InvalidError (SpdkSettingReadFailed (Error err)))
                | Inr v2DataEngineEnabled \<Rightarrow>
                    range_loop (Create_disk v2DataEngineEnabled) (Disks (Spec node))))"

subsection \<open>isNodeDiskSpecAndStatusSynced (lines 211-223)\<close>

definition isNodeDiskSpecAndStatusSynced :: "Node \<Rightarrow> bool" where
  "isNodeDiskSpecAndStatusSynced node =
     (if length (Disks (Spec node)) \<noteq> length (DiskStatuses (Status node)) then False
      else (case range_loop
                  (\<lambda>entry. case entry of (diskName, disk) \<Rightarrow>
                     if map_of (DiskStatuses (Status node)) diskName = None
                     then Some False else None)
                  (Disks (Spec node)) of
              Some b \<Rightarrow> b
            | None \<Rightarrow> True))"

subsection \<open>Update (lines 81-209)\<close>

text \<open>
  The CPU reservation bound check, lines 122-144: the log lines written and the error
  returned, or \<open>None\<close> when control reaches line 146.
\<close>

definition Update_cpuReservation ::
  "Packages \<Rightarrow> DataStore \<Rightarrow> Node \<Rightarrow> Node \<Rightarrow> log list \<times> werror option" where
  "Update_cpuReservation pkg n oldNode newNode =
     (if InstanceManagerCPURequest (Spec newNode) \<noteq> 0 then
        (case GetKubernetesNodeRO n (Name oldNode) of
           Inl err \<Rightarrow>
             if \<not> ErrorIsNotFound err
             then ([], Some (InvalidError (KubernetesNodeReadFailed (Error err))))
             else ([Warnf (''Kubernetes node '' @ Name oldNode @ '' has been deleted'')], None)
         | Inr kubeNode \<Rightarrow>
             (let allocatableCPU = AllocatableCPUMilliValue kubeNode in
              case GetSettingWithAutoFillingRO n SettingNameGuaranteedInstanceManagerCPU of
                Inl err \<Rightarrow> ([], Some (InvalidError (CPUSettingReadFailed (Error err))))
              | Inr instanceManagerCPUSetting \<Rightarrow>
                  (let instanceManagerCPUInPercentage =
                         (if InstanceManagerCPURequest (Spec newNode) > 0
                          then FormatCPUPercentage pkg
                                 (InstanceManagerCPURequest (Spec newNode)) allocatableCPU
                          else Value instanceManagerCPUSetting) in
                   case ValidateCPUReservationValues pkg
                          SettingNameGuaranteedInstanceManagerCPU
                          instanceManagerCPUInPercentage of
                     Some err \<Rightarrow> ([], Some (InvalidError (CPUReservationInvalid (Error err))))
                   | None \<Rightarrow> ([], None))))
      else ([], None))"

text \<open>The body of the loop of lines 153-158.\<close>

definition Update_diskEviction :: "string \<times> DiskSpec \<Rightarrow> werror option" where
  "Update_diskEviction entry =
     (case entry of (diskName, diskSpec) \<Rightarrow>
        if Disk_EvictionRequested diskSpec \<and> Disk_AllowScheduling diskSpec
        then Some (InvalidError (DiskEvictionConflict diskName))
        else None)"

text \<open>The body of the loop of lines 167-187.\<close>

definition Update_disk :: "Packages \<Rightarrow> bool \<Rightarrow> Node \<Rightarrow> string \<times> DiskSpec \<Rightarrow> werror option" where
  "Update_disk pkg v2DataEngineEnabled newNode entry =
     (case entry of (name, disk) \<Rightarrow>
        if StorageReserved disk < 0
        then Some (InvalidError (StorageReservedInvalid (Name newNode) name (Path disk)))
        else (case ValidateTags pkg (Disk_Tags disk) of
                Inl err \<Rightarrow> Some (InvalidError (TagsInvalid (Error err)))
              | Inr tags \<Rightarrow>
                  if \<not> v2DataEngineEnabled \<and> Type disk = DiskTypeBlock
                  then Some (InvalidError (BlockDiskSpdkDisabled (Name newNode) name (Path disk)))
                  else if Type disk \<noteq> DiskTypeBlock \<and> DiskDriver disk \<noteq> DiskDriverNone
                  then Some (InvalidError (DiskDriverNotSupported name (Type disk)))
                  else None))"

text \<open>
  The body of the loop of lines 190-197. \<open>||\<close> evaluates its right operand only when the
  left one is false; the right operand reads \<open>StorageScheduled\<close> through the reference found
  in \<open>oldNode.Status.DiskStatus\<close>, which is nil when the name is absent.
\<close>

definition Update_deleteDisk :: "Node \<Rightarrow> Node \<Rightarrow> string \<times> DiskSpec \<Rightarrow> (log list \<times> result) option" where
  "Update_deleteDisk oldNode newNode entry =
     (case entry of (name, disk) \<Rightarrow>
        (case map_of (Disks (Spec newNode)) name of
           Some newDisk \<Rightarrow> None
         | None \<Rightarrow>
             (let rejected =
                    Some ([Infof (''Delete Disk on node '' @ name
                                  @ '' error: Please disable the disk '' @ Path disk
                                  @ '' and remove all replicas and backing images first'')],
                          Returns (Some (InvalidError (DiskRemovalUnsafe name (Path disk))))) in
              if Disk_AllowScheduling disk then rejected
              else (case map_of (DiskStatuses (Status oldNode)) name of
                      None \<Rightarrow> Some ([], Panics)
                    | Some diskStatus \<Rightarrow>
                        if StorageScheduled diskStatus \<noteq> 0 then rejected else None))))"

text \<open>The body of the loop of lines 200-206.\<close>

definition Update_diskType :: "Node \<Rightarrow> string \<times> DiskSpec \<Rightarrow> werror option" where
  "Update_diskType newNode entry =
     (case entry of (name, disk) \<Rightarrow>
        (case map_of (Disks (Spec newNode)) name of
           None \<Rightarrow> None
         | Some newDisk \<Rightarrow>
             if Type disk \<noteq> '''' \<and> Type disk \<noteq> Type newDisk
             then Some (InvalidError (DiskTypeChanged (Name newNode) name (Path disk)))
             else None))"

text \<open>Lines 146-208: everything after the CPU reservation bound check.\<close>

definition Update_disks :: "Packages \<Rightarrow> DataStore \<Rightarrow> Node \<Rightarrow> Node \<Rightarrow> log list \<times> result" where
  "Update_disks pkg n oldNode newNode =
     (if Spec_Name (Spec newNode) = '''' then ([], Returns (Some (InvalidError EmptySpecName)))
      else (case range_loop Update_diskEviction (Disks (Spec newNode)) of
              Some err \<Rightarrow> ([], Returns (Some err))
            | None \<Rightarrow>
      (case GetSettingAsBool n SettingNameV2DataEngine of
         Inl err \<Rightarrow> ([], Returns (Some (InvalidError (SpdkSettingReadFailed (Error err)))))
       | Inr v2DataEngineEnabled \<Rightarrow>
      (case range_loop (Update_disk pkg v2DataEngineEnabled newNode) (Disks (Spec newNode)) of
         Some err \<Rightarrow> ([], Returns (Some err))
       | None \<Rightarrow>
      (case range_loop (Update_deleteDisk oldNode newNode) (Disks (Spec oldNode)) of
         Some stop \<Rightarrow> stop
       | None \<Rightarrow>
      (case range_loop (Update_diskType newNode) (Disks (Spec oldNode)) of
         Some err \<Rightarrow> ([], Returns (Some err))
       | None \<Rightarrow> ([], Returns None)))))))"

definition Update :: "Packages \<Rightarrow> DataStore \<Rightarrow> Object \<Rightarrow> Object \<Rightarrow> log list \<times> result" where
  "Update pkg n oldObj newObj =
     (case oldObj of
        OtherObj printed \<Rightarrow> ([], Returns (Some (InvalidError (NotANode printed))))
      | NodeObj oldNode \<Rightarrow>
     (case newObj of
        OtherObj printed \<Rightarrow> ([], Returns (Some (InvalidError (NotANode printed))))
      | NodeObj newNode \<Rightarrow>
     (case IsRemovingLonghornFinalizer oldNode newNode of
        Inl err \<Rightarrow> ([], Returns (Some (InvalidError (FinalizerCheckFailed (Error err)))))
      | Inr isRemovingLonghornFinalizer \<Rightarrow>
          if isRemovingLonghornFinalizer then ([], Returns None)
          else if InstanceManagerCPURequest (Spec newNode) < 0
          then ([], Returns (Some (InvalidError NegativeCPURequest)))
          else if EvictionRequested (Spec newNode) \<and> AllowScheduling (Spec newNode)
          then ([], Returns (Some (InvalidError (NodeEvictionConflict (Name oldNode)))))
          else if \<not> isNodeDiskSpecAndStatusSynced oldNode
          then ([], Returns (Some (ForbiddenError (DisksBeingSynced (Name oldNode)))))
          else (case ValidateTags pkg (Tags (Spec newNode)) of
                  Inl err \<Rightarrow> ([], Returns (Some (InvalidError (TagsInvalid (Error err)))))
                | Inr tags \<Rightarrow>
                    (case Update_cpuReservation pkg n oldNode newNode of
                       (logs, Some err) \<Rightarrow> (logs, Returns (Some err))
                     | (logs, None) \<Rightarrow>
                         (case Update_disks pkg n oldNode newNode of
                            (logs', res) \<Rightarrow> (logs @ logs', res)))))))"

subsection \<open>Delete (lines 225-264)\<close>

definition Delete :: "DataStore \<Rightarrow> Object \<Rightarrow> werror option" where
  "Delete n obj =
     (case obj of
        OtherObj printed \<Rightarrow> Some (InvalidError (NotANode printed))
      | NodeObj node \<Rightarrow>
          (let isUninstalling =
                 (case Annotations node of
                    None \<Rightarrow> False
                  | Some annotations \<Rightarrow>
                      map_of annotations (GetLonghornLabelKey DeleteNodeFromLonghorn) \<noteq> None) in
           if isUninstalling then None
           else (case ListReplicasByNodeRO n (Name node) of
                   Inl err \<Rightarrow> Some (InvalidError (ListReplicasFailed (Name node) (Error err)))
                 | Inr replicas \<Rightarrow>
                (case ListEnginesByNodeRO n (Name node) of
                   Inl err \<Rightarrow> Some (InvalidError (ListEnginesFailed (Name node) (Error err)))
                 | Inr engines \<Rightarrow>
                (let condition = GetCondition (Conditions (Status node)) NodeConditionTypeReady in
                 if Cond_Status condition = ConditionStatusTrue
                    \<or> (Cond_Reason condition \<noteq> NodeConditionReasonKubernetesNodeGone
                        \<and> Cond_Reason condition \<noteq> NodeConditionReasonManagerPodMissing)
                    \<or> AllowScheduling (Spec node) \<or> length replicas > 0 \<or> length engines > 0
                 then Some (InvalidError (NodeDeletionUnsafe (Name node) (Cond_Status condition)
                              (Cond_Reason condition) (AllowScheduling (Spec node))
                              (length replicas) (length engines)))
                 else None)))))"

subsection \<open>Sample cluster states and requests\<close>

text \<open>Concrete values on which the theorems below are instantiated.\<close>

definition disk_fs :: DiskSpec where
  "disk_fs = \<lparr>Type = ''filesystem'', Path = ''/var/lib/longhorn'', DiskDriver = '''',
               Disk_AllowScheduling = False, Disk_EvictionRequested = False,
               StorageReserved = 0, Disk_Tags = []\<rparr>"

definition disk_block :: DiskSpec where
  "disk_block = \<lparr>Type = ''block'', Path = ''/dev/sdb'', DiskDriver = ''aio'',
                  Disk_AllowScheduling = False, Disk_EvictionRequested = False,
                  StorageReserved = 0, Disk_Tags = []\<rparr>"

definition disk_evicting :: DiskSpec where
  "disk_evicting = disk_fs\<lparr>Disk_EvictionRequested := True, Disk_AllowScheduling := True\<rparr>"

text \<open>A node that is down, drained and in sync: one filesystem disk with nothing scheduled.\<close>

definition node_a :: Node where
  "node_a = \<lparr>Name = ''node-a'', Annotations = None, Finalizers = [''longhorn.io''],
              DeletionTimestamp = None,
              Spec = \<lparr>Spec_Name = ''node-a'', Disks = [(''disk-1'', disk_fs)],
                       AllowScheduling = False, EvictionRequested = False, Tags = [],
                       InstanceManagerCPURequest = 0\<rparr>,
              Status = \<lparr>Conditions = [\<lparr>Cond_Type = ''Ready'', Cond_Status = ''False'',
                                         Cond_Reason = ''KubernetesNodeGone''\<rparr>],
                         DiskStatuses = [(''disk-1'', \<lparr>StorageScheduled = 0\<rparr>)]\<rparr>\<rparr>"

definition node_a_cpu :: Node where
  "node_a_cpu = node_a\<lparr>Spec := (Spec node_a)\<lparr>InstanceManagerCPURequest := 100\<rparr>\<rparr>"

definition node_a_unsynced :: Node where
  "node_a_unsynced = node_a\<lparr>Status := (Status node_a)\<lparr>DiskStatuses := []\<rparr>\<rparr>"

definition node_a_retyped :: Node where
  "node_a_retyped = node_a\<lparr>Spec := (Spec node_a)\<lparr>Disks := [(''disk-1'', disk_block)]\<rparr>\<rparr>"

definition node_a_no_disks :: Node where
  "node_a_no_disks = node_a\<lparr>Spec := (Spec node_a)\<lparr>Disks := []\<rparr>\<rparr>"

definition node_a_busy :: Node where
  "node_a_busy = node_a\<lparr>Status := (Status node_a)
                   \<lparr>DiskStatuses := [(''disk-1'', \<lparr>StorageScheduled = 1024\<rparr>)]\<rparr>\<rparr>"

definition node_a_evicting :: Node where
  "node_a_evicting = node_a\<lparr>Spec := (Spec node_a)
                       \<lparr>EvictionRequested := True, AllowScheduling := True\<rparr>\<rparr>"

definition node_a_disk_evicting :: Node where
  "node_a_disk_evicting = node_a\<lparr>Spec := (Spec node_a)
                            \<lparr>Disks := [(''disk-1'', disk_evicting)]\<rparr>\<rparr>"

text \<open>
  A node under deletion that breaks the rules of an update and of a delete in several
  ways, and the same node once the finalizer is dropped.
\<close>

definition node_b :: Node where
  "node_b = \<lparr>Name = ''node-b'',
              Annotations = Some [(''longhorn.io/delete-node-from-longhorn'', '''')],
              Finalizers = [''longhorn.io''],
              DeletionTimestamp = Some ''2024-01-01T00:00:00Z'',
              Spec = \<lparr>Spec_Name = '''', Disks = [(''disk-2'', disk_block)],
                       AllowScheduling = True, EvictionRequested = True, Tags = [],
                       InstanceManagerCPURequest = - 1\<rparr>,
              Status = \<lparr>Conditions = [\<lparr>Cond_Type = ''Ready'', Cond_Status = ''True'',
                                         Cond_Reason = ''''\<rparr>],
                         DiskStatuses = []\<rparr>\<rparr>"

definition node_b_released :: Node where
  "node_b_released = node_b\<lparr>Finalizers := []\<rparr>"

text \<open>The same update, which also turns the block disk \<open>disk-2\<close> into a filesystem disk.\<close>

definition node_b_released_retyped :: Node where
  "node_b_released_retyped =
     node_b_released\<lparr>Spec := (Spec node_b_released)\<lparr>Disks := [(''disk-2'', disk_fs)]\<rparr>\<rparr>"

text \<open>
  A cluster whose compute node is gone and whose stored CPU percentage lies outside the
  range that \<open>pkg_a\<close> accepts; and a cluster with a replica and an engine on the node.
\<close>

definition ds_a :: DataStore where
  "ds_a = \<lparr>GetSettingAsBool = (\<lambda>name. Inr False),
            GetKubernetesNodeRO = (\<lambda>name. Inl (ErrNotFound ''node not found'')),
            GetSettingWithAutoFillingRO = (\<lambda>name. Inr \<lparr>Value = ''150''\<rparr>),
            ListReplicasByNodeRO = (\<lambda>name. Inr []),
            ListEnginesByNodeRO = (\<lambda>name. Inr [])\<rparr>"

definition ds_b :: DataStore where
  "ds_b = \<lparr>GetSettingAsBool = (\<lambda>name. Inr False),
            GetKubernetesNodeRO = (\<lambda>name. Inr \<lparr>AllocatableCPUMilliValue = 4000\<rparr>),
            GetSettingWithAutoFillingRO = (\<lambda>name. Inr \<lparr>Value = ''12''\<rparr>),
            ListReplicasByNodeRO = (\<lambda>name. Inr [''replica-1'']),
            ListEnginesByNodeRO = (\<lambda>name. Inr [''engine-1''])\<rparr>"

definition ds_v2 :: DataStore where
  "ds_v2 = ds_b\<lparr>GetSettingAsBool := (\<lambda>name. Inr True)\<rparr>"

definition pkg_a :: Packages where
  "pkg_a = \<lparr>ValidateTags = (\<lambda>tags. Inr tags),
             ValidateCPUReservationValues =
               (\<lambda>name value. if value \<in> set [''0'', ''12'', ''40''] then None
                             else Some (ErrOther ''invalid requested instance manager CPUs'')),
             FormatCPUPercentage = (\<lambda>request allocatable. ''12'')\<rparr>"

lemmas constant_defs = DiskTypeBlock_def DiskDriverNone_def ConditionStatusTrue_def
  NodeConditionTypeReady_def NodeConditionReasonKubernetesNodeGone_def
  NodeConditionReasonManagerPodMissing_def SettingNameV2DataEngine_def
  SettingNameGuaranteedInstanceManagerCPU_def DeleteNodeFromLonghorn_def
  GetLonghornLabelKey_def longhornFinalizerKey_def

lemmas sample_defs = constant_defs disk_fs_def disk_block_def disk_evicting_def node_a_def
  node_a_cpu_def node_a_unsynced_def node_a_retyped_def node_a_no_disks_def node_a_busy_def
  node_a_evicting_def node_a_disk_evicting_def node_b_def node_b_released_def
  node_b_released_retyped_def ds_a_def
  ds_b_def ds_v2_def pkg_a_def

lemmas model_defs = Update_def Update_disks_def Update_cpuReservation_def
  Update_diskEviction_def Update_disk_def Update_deleteDisk_def Update_diskType_def
  isNodeDiskSpecAndStatusSynced_def IsRemovingLonghornFinalizer_def Create_def
  Create_disk_def Delete_def

section \<open>Properties\<close>

subsection \<open>Loops\<close>

lemma range_loop_None_iff: "range_loop body xs = None \<longleftrightarrow> (\<forall>x\<in>set xs. body x = None)"
  by (induction xs) (auto split: option.splits)

lemma range_loop_SomeD: "range_loop body xs = Some r \<Longrightarrow> \<exists>x\<in>set xs. body x = Some r"
  by (induction xs) (auto split: option.splits)

text \<open>Whether a loop runs to its end does not depend on the order of its iterations.\<close>

lemma range_loop_None_order:
  "set xs = set ys \<Longrightarrow> range_loop body xs = None \<longleftrightarrow> range_loop body ys = None"
  by (simp add: range_loop_None_iff)

subsection \<open>The disk-sync precondition\<close>

lemma synced_iff:
  "isNodeDiskSpecAndStatusSynced node \<longleftrightarrow>
     length (Disks (Spec node)) = length (DiskStatuses (Status node))
     \<and> (\<forall>entry\<in>set (Disks (Spec node)).
           map_of (DiskStatuses (Status node)) (fst entry) \<noteq> None)"
proof -
  let ?body = "\<lambda>entry. case entry of (diskName, disk) \<Rightarrow>
                 if map_of (DiskStatuses (Status node)) diskName = None
                 then Some False else (None :: bool option)"
  have none: "range_loop ?body xs = None \<longleftrightarrow>
                (\<forall>entry\<in>set xs. map_of (DiskStatuses (Status node)) (fst entry) \<noteq> None)"
    for xs :: "DiskSpec gomap"
    by (induction xs) (auto split: prod.splits if_splits)
  have some: "range_loop ?body xs = Some b \<Longrightarrow> b = False"
    for xs :: "DiskSpec gomap" and b
    by (auto dest!: range_loop_SomeD split: prod.splits if_splits)
  show ?thesis
    unfolding isNodeDiskSpecAndStatusSynced_def
    using none [of "Disks (Spec node)"] some [of "Disks (Spec node)"]
    by (auto split: option.splits)
qed

subsection \<open>Update never panics\<close>

lemma deleteDisk_stop_cases:
  "Update_deleteDisk oldNode newNode entry = Some (logs, res) \<Longrightarrow>
     (\<exists>e. res = Returns (Some e))
     \<or> (res = Panics \<and> map_of (DiskStatuses (Status oldNode)) (fst entry) = None)"
  by (auto simp: Update_deleteDisk_def Let_def split: prod.splits option.splits if_splits)

lemma deleteDisk_loop_rejects:
  assumes "isNodeDiskSpecAndStatusSynced oldNode"
    and "range_loop (Update_deleteDisk oldNode newNode) (Disks (Spec oldNode)) = Some (logs, res)"
  shows "\<exists>e. res = Returns (Some e)"
proof -
  from assms(2) obtain entry where e: "entry \<in> set (Disks (Spec oldNode))"
    and b: "Update_deleteDisk oldNode newNode entry = Some (logs, res)"
    by (auto dest: range_loop_SomeD)
  from assms(1) e have "map_of (DiskStatuses (Status oldNode)) (fst entry) \<noteq> None"
    by (simp add: synced_iff)
  with deleteDisk_stop_cases [OF b] show ?thesis by auto
qed

lemma deleteDisk_loop_not_accept:
  "range_loop (Update_deleteDisk oldNode newNode) xs \<noteq> Some (logs, Returns None)"
proof
  assume "range_loop (Update_deleteDisk oldNode newNode) xs = Some (logs, Returns None)"
  then obtain entry where "Update_deleteDisk oldNode newNode entry = Some (logs, Returns None)"
    by (auto dest: range_loop_SomeD)
  from deleteDisk_stop_cases [OF this] show False by simp
qed

lemma Update_disks_no_panic:
  "isNodeDiskSpecAndStatusSynced oldNode \<Longrightarrow>
     Update_disks pkg n oldNode newNode \<noteq> (logs, Panics)"
  by (auto simp: Update_disks_def split: option.splits sum.splits dest: deleteDisk_loop_rejects)

lemma Update_no_panic: "Update pkg n oldObj newObj \<noteq> (logs, Panics)"
  by (auto simp: Update_def Update_disks_no_panic
           split: Object.splits sum.splits option.splits prod.splits)

lemma Update_returns: "\<exists>r. snd (Update pkg n oldObj newObj) = Returns r"
  using Update_no_panic [of pkg n oldObj newObj "fst (Update pkg n oldObj newObj)"]
  by (cases "snd (Update pkg n oldObj newObj)") (auto simp: prod_eq_iff)

lemma Update_rejects_if_not_accepts:
  "snd (Update pkg n oldObj newObj) \<noteq> Returns None \<Longrightarrow>
     \<exists>e. snd (Update pkg n oldObj newObj) = Returns (Some e)"
  using Update_returns [of pkg n oldObj newObj]
  by (cases "snd (Update pkg n oldObj newObj)") auto

subsection \<open>What an accepted update has passed\<close>

lemma Update_disks_acceptD:
  assumes "snd (Update_disks pkg n oldNode newNode) = Returns None"
  shows "Spec_Name (Spec newNode) \<noteq> []
         \<and> range_loop Update_diskEviction (Disks (Spec newNode)) = None
         \<and> (\<exists>v2. GetSettingAsBool n SettingNameV2DataEngine = Inr v2
                \<and> range_loop (Update_disk pkg v2 newNode) (Disks (Spec newNode)) = None)
         \<and> range_loop (Update_deleteDisk oldNode newNode) (Disks (Spec oldNode)) = None
         \<and> range_loop (Update_diskType newNode) (Disks (Spec oldNode)) = None"
  using assms deleteDisk_loop_not_accept [of oldNode newNode "Disks (Spec oldNode)"]
  by (auto simp: Update_disks_def split: if_splits option.splits sum.splits)

lemma Update_acceptD:
  assumes "snd (Update pkg n (NodeObj oldNode) (NodeObj newNode)) = Returns None"
    and "IsRemovingLonghornFinalizer oldNode newNode \<noteq> Inr True"
  shows "\<not> InstanceManagerCPURequest (Spec newNode) < 0
         \<and> \<not> (EvictionRequested (Spec newNode) \<and> AllowScheduling (Spec newNode))
         \<and> isNodeDiskSpecAndStatusSynced oldNode
         \<and> snd (Update_disks pkg n oldNode newNode) = Returns None"
  using assms
  by (auto simp: Update_def split: if_splits option.splits sum.splits prod.splits)

lemma Update_accept_loops:
  assumes "snd (Update pkg n (NodeObj oldNode) (NodeObj newNode)) = Returns None"
    and "IsRemovingLonghornFinalizer oldNode newNode \<noteq> Inr True"
  shows "range_loop Update_diskEviction (Disks (Spec newNode)) = None"
    and "\<exists>v2. GetSettingAsBool n SettingNameV2DataEngine = Inr v2
            \<and> range_loop (Update_disk pkg v2 newNode) (Disks (Spec newNode)) = None"
    and "range_loop (Update_deleteDisk oldNode newNode) (Disks (Spec oldNode)) = None"
    and "range_loop (Update_diskType newNode) (Disks (Spec oldNode)) = None"
  using Update_disks_acceptD [of pkg n oldNode newNode] Update_acceptD [OF assms]
  by simp_all

subsection \<open>Which rule can return which error\<close>














subsection \<open>The reads of the rules that follow the CPU check\<close>

lemma Update_disk_ignores_cpu_helpers:
  "Update_disk (pkg\<lparr>ValidateCPUReservationValues := v, FormatCPUPercentage := f\<rparr>)
     = Update_disk pkg"
  by (intro ext) (simp add: Update_disk_def cong: if_cong split: prod.splits)

lemma Update_disks_ignores_cpu_reads:
  "Update_disks (pkg\<lparr>ValidateCPUReservationValues := v, FormatCPUPercentage := f\<rparr>)
       (n\<lparr>GetSettingWithAutoFillingRO := g\<rparr>) oldNode newNode
     = Update_disks pkg n oldNode newNode"
  by (simp add: Update_disks_def Update_disk_ignores_cpu_helpers
           cong: if_cong option.case_cong sum.case_cong)

section \<open>The claims\<close>

subsection \<open>C1: a compute node that is gone\<close>

text \<open>
  C1, as stated, says that when the read of the compute node fails with not-found, the
  rule goes on to validate the default guaranteed-CPU percentage against the accepted
  range. It does not: on \<open>ds_a\<close> the compute node is not found, the stored default
  percentage \<open>150\<close> is one that \<open>ValidateCPUReservationValues\<close> rejects, the request is
  nonzero, and the update is accepted with only the warning logged.
\<close>

theorem Update_node_gone_default_not_validated:
  "InstanceManagerCPURequest (Spec node_a_cpu) = 100
   \<and> GetKubernetesNodeRO ds_a (Name node_a) = Inl (ErrNotFound ''node not found'')
   \<and> ErrorIsNotFound (ErrNotFound ''node not found'')
   \<and> GetSettingWithAutoFillingRO ds_a SettingNameGuaranteedInstanceManagerCPU
        = Inr \<lparr>Value = ''150''\<rparr>
   \<and> ValidateCPUReservationValues pkg_a SettingNameGuaranteedInstanceManagerCPU ''150''
        = Some (ErrOther ''invalid requested instance manager CPUs'')
   \<and> Update pkg_a ds_a (NodeObj node_a) (NodeObj node_a_cpu)
        = ([Warnf ''Kubernetes node node-a has been deleted''], Returns None)"
  by (simp add: sample_defs model_defs)

text \<open>
  C1 (amended): for every update with a nonzero \<open>instanceManagerCPURequest\<close> that reaches
  the CPU reservation bound check (it is not a finalizer removal, the request is not
  negative, the node is not both evicting and schedulable, the old node's disks are in
  sync and the node's tags are valid), if the read of the compute node fails with
  not-found, the check logs one warning, returns no error and validates nothing: the
  update goes on with the rules that follow, and its outcome is the same whatever the
  guaranteed-CPU setting holds and whatever the percentage validator and formatter do.
\<close>

theorem Update_node_gone_skips_cpu_check:
  assumes "IsRemovingLonghornFinalizer oldNode newNode = Inr False"
    and "\<not> InstanceManagerCPURequest (Spec newNode) < 0"
    and "\<not> (EvictionRequested (Spec newNode) \<and> AllowScheduling (Spec newNode))"
    and "isNodeDiskSpecAndStatusSynced oldNode"
    and "ValidateTags pkg (Tags (Spec newNode)) = Inr tags"
    and "InstanceManagerCPURequest (Spec newNode) \<noteq> 0"
    and "GetKubernetesNodeRO n (Name oldNode) = Inl err"
    and "ErrorIsNotFound err"
  shows "Update_cpuReservation pkg n oldNode newNode
           = ([Warnf (''Kubernetes node '' @ Name oldNode @ '' has been deleted'')], None)
         \<and> Update pkg n (NodeObj oldNode) (NodeObj newNode)
           = (Warnf (''Kubernetes node '' @ Name oldNode @ '' has been deleted'')
                # fst (Update_disks pkg n oldNode newNode),
              snd (Update_disks pkg n oldNode newNode))
         \<and> Update (pkg\<lparr>ValidateCPUReservationValues := v, FormatCPUPercentage := f\<rparr>)
              (n\<lparr>GetSettingWithAutoFillingRO := g\<rparr>) (NodeObj oldNode) (NodeObj newNode)
           = Update pkg n (NodeObj oldNode) (NodeObj newNode)"
proof (intro conjI)
  from assms(6-8)
  show c: "Update_cpuReservation pkg n oldNode newNode
           = ([Warnf (''Kubernetes node '' @ Name oldNode @ '' has been deleted'')], None)"
    by (simp add: Update_cpuReservation_def)
  from assms(1-5) c
  show u: "Update pkg n (NodeObj oldNode) (NodeObj newNode)
           = (Warnf (''Kubernetes node '' @ Name oldNode @ '' has been deleted'')
                # fst (Update_disks pkg n oldNode newNode),
              snd (Update_disks pkg n oldNode newNode))"
    by (simp add: Update_def split: prod.splits)
  from assms(6-8)
  have c': "Update_cpuReservation
              (pkg\<lparr>ValidateCPUReservationValues := v, FormatCPUPercentage := f\<rparr>)
              (n\<lparr>GetSettingWithAutoFillingRO := g\<rparr>) oldNode newNode
           = ([Warnf (''Kubernetes node '' @ Name oldNode @ '' has been deleted'')], None)"
    by (simp add: Update_cpuReservation_def)
  from assms(1-5) c'
  have "Update (pkg\<lparr>ValidateCPUReservationValues := v, FormatCPUPercentage := f\<rparr>)
              (n\<lparr>GetSettingWithAutoFillingRO := g\<rparr>) (NodeObj oldNode) (NodeObj newNode)
           = (Warnf (''Kubernetes node '' @ Name oldNode @ '' has been deleted'')
                # fst (Update_disks pkg n oldNode newNode),
              snd (Update_disks pkg n oldNode newNode))"
    by (simp add: Update_def Update_disks_ignores_cpu_reads split: prod.splits)
  with u
  show "Update (pkg\<lparr>ValidateCPUReservationValues := v, FormatCPUPercentage := f\<rparr>)
              (n\<lparr>GetSettingWithAutoFillingRO := g\<rparr>) (NodeObj oldNode) (NodeObj newNode)
           = Update pkg n (NodeObj oldNode) (NodeObj newNode)"
    by simp
qed

text \<open>The amended C1 on \<open>node_a\<close> with a request of 100 millicores, on \<open>ds_a\<close>.\<close>

theorem Update_node_gone_skips_cpu_check_witness:
  "IsRemovingLonghornFinalizer node_a node_a_cpu = Inr False
   \<and> InstanceManagerCPURequest (Spec node_a_cpu) = 100
   \<and> isNodeDiskSpecAndStatusSynced node_a
   \<and> GetKubernetesNodeRO ds_a (Name node_a) = Inl (ErrNotFound ''node not found'')
   \<and> Update_cpuReservation pkg_a ds_a node_a node_a_cpu
        = ([Warnf ''Kubernetes node node-a has been deleted''], None)
   \<and> Update pkg_a ds_a (NodeObj node_a) (NodeObj node_a_cpu)
        = ([Warnf ''Kubernetes node node-a has been deleted''], Returns None)"
proof -
  have h1: "IsRemovingLonghornFinalizer node_a node_a_cpu = Inr False"
    by (simp add: sample_defs IsRemovingLonghornFinalizer_def)
  have h2: "\<not> InstanceManagerCPURequest (Spec node_a_cpu) < 0"
    by (simp add: sample_defs)
  have h3: "\<not> (EvictionRequested (Spec node_a_cpu) \<and> AllowScheduling (Spec node_a_cpu))"
    by (simp add: sample_defs)
  have h4: "isNodeDiskSpecAndStatusSynced node_a"
    by (simp add: sample_defs isNodeDiskSpecAndStatusSynced_def)
  have h5: "ValidateTags pkg_a (Tags (Spec node_a_cpu)) = Inr []"
    by (simp add: sample_defs)
  have h6: "InstanceManagerCPURequest (Spec node_a_cpu) \<noteq> 0"
    by (simp add: sample_defs)
  have h7: "GetKubernetesNodeRO ds_a (Name node_a) = Inl (ErrNotFound ''node not found'')"
    by (simp add: sample_defs)
  have h8: "ErrorIsNotFound (ErrNotFound ''node not found'')"
    by simp
  have d: "Update_disks pkg_a ds_a node_a node_a_cpu = ([], Returns None)"
    by (simp add: sample_defs model_defs)
  have n: "Name node_a = ''node-a''" "InstanceManagerCPURequest (Spec node_a_cpu) = 100"
    by (simp_all add: sample_defs)
  from Update_node_gone_skips_cpu_check [OF h1 h2 h3 h4 h5 h6 h7 h8] h1 h4 h7 d n
  show ?thesis by simp
qed

subsection \<open>C2: disks that are not in sync\<close>



subsection \<open>C3: removal of the finalizer\<close>

text \<open>
  C3: for every pair of nodes whose only difference is that the \<open>longhorn.io\<close> finalizer
  of the old node, which is being deleted, is gone from the new one, \<open>Update\<close> returns nil,
  whatever else the two nodes, the cluster and the helpers are.
\<close>

theorem Update_finalizer_removal_accepted:
  assumes "DeletionTimestamp oldNode \<noteq> None"
    and "longhornFinalizerKey \<in> set (Finalizers oldNode)"
    and "newNode = oldNode\<lparr>Finalizers := removeAll longhornFinalizerKey (Finalizers oldNode)\<rparr>"
  shows "Update pkg n (NodeObj oldNode) (NodeObj newNode) = ([], Returns None)"
  using assms by (simp add: Update_def IsRemovingLonghornFinalizer_def)

text \<open>
  C3 on \<open>node_b\<close>, whose CPU request is negative, which is evicting and schedulable at
  once, whose disks are not in sync and whose spec name is empty.
\<close>

theorem Update_finalizer_removal_accepted_witness:
  "DeletionTimestamp node_b \<noteq> None
   \<and> longhornFinalizerKey \<in> set (Finalizers node_b)
   \<and> node_b_released = node_b\<lparr>Finalizers := removeAll longhornFinalizerKey (Finalizers node_b)\<rparr>
   \<and> InstanceManagerCPURequest (Spec node_b_released) < 0
   \<and> EvictionRequested (Spec node_b_released) \<and> AllowScheduling (Spec node_b_released)
   \<and> \<not> isNodeDiskSpecAndStatusSynced node_b
   \<and> Spec_Name (Spec node_b_released) = ''''
   \<and> Update pkg_a ds_b (NodeObj node_b) (NodeObj node_b_released) = ([], Returns None)"
proof -
  have h1: "DeletionTimestamp node_b \<noteq> None"
    by (simp add: sample_defs)
  have h2: "longhornFinalizerKey \<in> set (Finalizers node_b)"
    by (simp add: sample_defs)
  have h3: "node_b_released
              = node_b\<lparr>Finalizers := removeAll longhornFinalizerKey (Finalizers node_b)\<rparr>"
    by (simp add: sample_defs)
  have v: "InstanceManagerCPURequest (Spec node_b_released) < 0"
      "EvictionRequested (Spec node_b_released)" "AllowScheduling (Spec node_b_released)"
      "\<not> isNodeDiskSpecAndStatusSynced node_b" "Spec_Name (Spec node_b_released) = ''''"
    by (simp_all add: sample_defs isNodeDiskSpecAndStatusSynced_def)
  from Update_finalizer_removal_accepted [OF h1 h2 h3, of pkg_a ds_b] h1 h2 h3 v
  show ?thesis by simp
qed

subsection \<open>C4: the five preconditions of a delete\<close>

text \<open>
  C4: for every delete of a node that does not carry the uninstall marker annotation and
  whose replica and engine listings succeed, \<open>Delete\<close> returns nil if and only if the
  status of the node's Ready condition is not True, its reason is that the Kubernetes
  node is gone or that the manager pod is missing, the node does not allow scheduling, no
  replica is on the node and no engine is on the node. So each of the five, when it
  fails alone, makes \<open>Delete\<close> return an error.
\<close>

theorem Delete_accepts_iff:
  assumes "Annotations node = None
           \<or> (\<exists>annotations. Annotations node = Some annotations
                \<and> map_of annotations (GetLonghornLabelKey DeleteNodeFromLonghorn) = None)"
    and "ListReplicasByNodeRO n (Name node) = Inr replicas"
    and "ListEnginesByNodeRO n (Name node) = Inr engines"
  shows "Delete n (NodeObj node) = None \<longleftrightarrow>
           Cond_Status (GetCondition (Conditions (Status node)) NodeConditionTypeReady)
             \<noteq> ConditionStatusTrue
           \<and> Cond_Reason (GetCondition (Conditions (Status node)) NodeConditionTypeReady)
               \<in> {NodeConditionReasonKubernetesNodeGone, NodeConditionReasonManagerPodMissing}
           \<and> \<not> AllowScheduling (Spec node)
           \<and> length replicas = 0
           \<and> length engines = 0"
  using assms by (auto simp: Delete_def Let_def)

text \<open>
  C4 on \<open>node_a\<close>: accepted on a cluster with no replica and no engine on the node,
  rejected on a cluster that has one of each.
\<close>

theorem Delete_accepts_iff_witness:
  "Delete ds_a (NodeObj node_a) = None \<and> Delete ds_b (NodeObj node_a) \<noteq> None"
proof -
  have a: "Annotations node_a = None
           \<or> (\<exists>annotations. Annotations node_a = Some annotations
                \<and> map_of annotations (GetLonghornLabelKey DeleteNodeFromLonghorn) = None)"
    by (simp add: sample_defs)
  have ra: "ListReplicasByNodeRO ds_a (Name node_a) = Inr []"
    and ea: "ListEnginesByNodeRO ds_a (Name node_a) = Inr []"
    and rb: "ListReplicasByNodeRO ds_b (Name node_a) = Inr [''replica-1'']"
    and eb: "ListEnginesByNodeRO ds_b (Name node_a) = Inr [''engine-1'']"
    by (simp_all add: sample_defs)
  have c: "GetCondition (Conditions (Status node_a)) NodeConditionTypeReady
             = \<lparr>Cond_Type = ''Ready'', Cond_Status = ''False'',
                Cond_Reason = ''KubernetesNodeGone''\<rparr>"
    by (simp add: sample_defs)
  have s: "\<not> AllowScheduling (Spec node_a)"
    by (simp add: sample_defs)
  from Delete_accepts_iff [OF a ra ea] Delete_accepts_iff [OF a rb eb] c s
  show ?thesis
    by (simp add: ConditionStatusTrue_def NodeConditionReasonKubernetesNodeGone_def)
qed

subsection \<open>C5: the uninstall marker\<close>

text \<open>
  C5: for every delete of a node whose annotations hold the \<open>DeleteNodeFromLonghorn\<close>
  key, \<open>Delete\<close> returns nil, for every datastore: the listings of replicas and engines
  have no part in the result, and none of the five preconditions is looked at.
\<close>

theorem Delete_uninstalling_accepted:
  assumes "Annotations node = Some annotations"
    and "map_of annotations (GetLonghornLabelKey DeleteNodeFromLonghorn) = Some v"
  shows "Delete n (NodeObj node) = None"
  using assms by (simp add: Delete_def)

text \<open>
  C5 on \<open>node_b\<close>, which is Ready and schedulable, on a cluster with a replica and an
  engine on the node.
\<close>

theorem Delete_uninstalling_accepted_witness:
  "AllowScheduling (Spec node_b)
   \<and> ListReplicasByNodeRO ds_b (Name node_b) = Inr [''replica-1'']
   \<and> ListEnginesByNodeRO ds_b (Name node_b) = Inr [''engine-1'']
   \<and> Cond_Status (GetCondition (Conditions (Status node_b)) NodeConditionTypeReady)
        = ConditionStatusTrue
   \<and> Cond_Reason (GetCondition (Conditions (Status node_b)) NodeConditionTypeReady) = ''''
   \<and> Delete ds_b (NodeObj node_b) = None"
proof -
  have h1: "Annotations node_b = Some [(''longhorn.io/delete-node-from-longhorn'', '''')]"
    by (simp add: sample_defs)
  have h2: "map_of [(''longhorn.io/delete-node-from-longhorn'', '''')]
              (GetLonghornLabelKey DeleteNodeFromLonghorn) = Some ''''"
    by (simp add: sample_defs)
  have v: "AllowScheduling (Spec node_b)"
      "ListReplicasByNodeRO ds_b (Name node_b) = Inr [''replica-1'']"
      "ListEnginesByNodeRO ds_b (Name node_b) = Inr [''engine-1'']"
      "Cond_Status (GetCondition (Conditions (Status node_b)) NodeConditionTypeReady)
        = ConditionStatusTrue"
      "Cond_Reason (GetCondition (Conditions (Status node_b)) NodeConditionTypeReady) = ''''"
    by (simp_all add: sample_defs)
  from Delete_uninstalling_accepted [OF h1 h2, of ds_b] v
  show ?thesis by simp
qed

subsection \<open>C6: the type of a disk does not change\<close>




subsection \<open>C7: removing a disk\<close>

text \<open>
  C7: for every update that is not a finalizer removal and in which a disk name of the
  old spec is absent from the new spec: if that disk allowed scheduling, or its status
  has a nonzero \<open>storageScheduled\<close>, \<open>Update\<close> returns an error; otherwise (the disk did not
  allow scheduling and its status has \<open>storageScheduled\<close> zero) the safe-removal rule lets
  this disk pass, and when that holds for every removed disk of a node in sync, the rule
  as a whole returns no error.
\<close>

theorem Update_disk_removal_safe:
  assumes "map_of (Disks (Spec oldNode)) name = Some disk"
    and "map_of (Disks (Spec newNode)) name = None"
    and "IsRemovingLonghornFinalizer oldNode newNode \<noteq> Inr True"
  shows "(Disk_AllowScheduling disk
            \<or> (\<exists>diskStatus. map_of (DiskStatuses (Status oldNode)) name = Some diskStatus
                  \<and> StorageScheduled diskStatus \<noteq> 0)
          \<longrightarrow> (\<exists>e. snd (Update pkg n (NodeObj oldNode) (NodeObj newNode)) = Returns (Some e)))
       \<and> (\<not> Disk_AllowScheduling disk
            \<and> (\<exists>diskStatus. map_of (DiskStatuses (Status oldNode)) name = Some diskStatus
                  \<and> StorageScheduled diskStatus = 0)
          \<longrightarrow> Update_deleteDisk oldNode newNode (name, disk) = None)
       \<and> (isNodeDiskSpecAndStatusSynced oldNode
            \<and> (\<forall>entry\<in>set (Disks (Spec oldNode)).
                  map_of (Disks (Spec newNode)) (fst entry) = None
                  \<longrightarrow> \<not> Disk_AllowScheduling (snd entry)
                      \<and> (\<forall>diskStatus. map_of (DiskStatuses (Status oldNode)) (fst entry)
                                         = Some diskStatus
                            \<longrightarrow> StorageScheduled diskStatus = 0))
          \<longrightarrow> range_loop (Update_deleteDisk oldNode newNode) (Disks (Spec oldNode)) = None)"
proof (intro conjI impI)
  assume unsafe: "Disk_AllowScheduling disk
            \<or> (\<exists>diskStatus. map_of (DiskStatuses (Status oldNode)) name = Some diskStatus
                  \<and> StorageScheduled diskStatus \<noteq> 0)"
  show "\<exists>e. snd (Update pkg n (NodeObj oldNode) (NodeObj newNode)) = Returns (Some e)"
  proof (rule Update_rejects_if_not_accepts, rule notI)
    assume acc: "snd (Update pkg n (NodeObj oldNode) (NodeObj newNode)) = Returns None"
    from assms(1) have mem: "(name, disk) \<in> set (Disks (Spec oldNode))"
      by (rule map_of_SomeD)
    have "range_loop (Update_deleteDisk oldNode newNode) (Disks (Spec oldNode)) = None"
      by (rule Update_accept_loops(3) [OF acc assms(3)])
    with mem have "Update_deleteDisk oldNode newNode (name, disk) = None"
      by (simp add: range_loop_None_iff)
    with assms(2) unsafe show False
      by (auto simp: Update_deleteDisk_def Let_def split: if_splits option.splits)
  qed
next
  assume "\<not> Disk_AllowScheduling disk
            \<and> (\<exists>diskStatus. map_of (DiskStatuses (Status oldNode)) name = Some diskStatus
                  \<and> StorageScheduled diskStatus = 0)"
  with assms(2) show "Update_deleteDisk oldNode newNode (name, disk) = None"
    by (auto simp: Update_deleteDisk_def Let_def)
next
  assume a: "isNodeDiskSpecAndStatusSynced oldNode
            \<and> (\<forall>entry\<in>set (Disks (Spec oldNode)).
                  map_of (Disks (Spec newNode)) (fst entry) = None
                  \<longrightarrow> \<not> Disk_AllowScheduling (snd entry)
                      \<and> (\<forall>diskStatus. map_of (DiskStatuses (Status oldNode)) (fst entry)
                                         = Some diskStatus
                            \<longrightarrow> StorageScheduled diskStatus = 0))"
  have "Update_deleteDisk oldNode newNode entry = None"
    if "entry \<in> set (Disks (Spec oldNode))" for entry
  proof -
    from a that have "map_of (DiskStatuses (Status oldNode)) (fst entry) \<noteq> None"
      by (simp add: synced_iff)
    with a that show ?thesis
      by (cases entry)
         (auto simp: Update_deleteDisk_def Let_def split: option.splits)
  qed
  then show "range_loop (Update_deleteDisk oldNode newNode) (Disks (Spec oldNode)) = None"
    by (simp add: range_loop_None_iff)
qed

text \<open>
  C7 on the removal of \<open>disk-1\<close>: rejected while 1024 bytes are scheduled on it, passed
  by the rule when nothing is scheduled on it.
\<close>

theorem Update_disk_removal_safe_witness:
  "(\<exists>e. snd (Update pkg_a ds_a (NodeObj node_a_busy) (NodeObj node_a_no_disks))
           = Returns (Some e))
   \<and> Update_deleteDisk node_a node_a_no_disks (''disk-1'', disk_fs) = None
   \<and> range_loop (Update_deleteDisk node_a node_a_no_disks) (Disks (Spec node_a)) = None"
proof -
  have h1: "map_of (Disks (Spec node_a_busy)) ''disk-1'' = Some disk_fs"
    and h1': "map_of (Disks (Spec node_a)) ''disk-1'' = Some disk_fs"
    and h2: "map_of (Disks (Spec node_a_no_disks)) ''disk-1'' = None"
    by (simp_all add: sample_defs)
  have b: "IsRemovingLonghornFinalizer node_a_busy node_a_no_disks \<noteq> Inr True"
    and b': "IsRemovingLonghornFinalizer node_a node_a_no_disks \<noteq> Inr True"
    by (simp_all add: sample_defs IsRemovingLonghornFinalizer_def)
  have busy: "map_of (DiskStatuses (Status node_a_busy)) ''disk-1''
                = Some \<lparr>StorageScheduled = 1024\<rparr>"
    and idle: "map_of (DiskStatuses (Status node_a)) ''disk-1'' = Some \<lparr>StorageScheduled = 0\<rparr>"
    and off: "\<not> Disk_AllowScheduling disk_fs"
    by (simp_all add: sample_defs)
  have s: "isNodeDiskSpecAndStatusSynced node_a"
    by (simp add: sample_defs isNodeDiskSpecAndStatusSynced_def)
  have d: "Disks (Spec node_a) = [(''disk-1'', disk_fs)]"
    by (simp add: sample_defs)
  from Update_disk_removal_safe [OF h1 h2 b, of pkg_a ds_a]
    Update_disk_removal_safe [OF h1' h2 b', of pkg_a ds_a] busy idle off s d
  show ?thesis by simp
qed

subsection \<open>C8: the status of a removed disk is always there\<close>

text \<open>
  C8: \<open>Update\<close> never panics, that is, the lookup of \<open>oldNode.Status.DiskStatus[name]\<close> in
  the safe-removal rule never finds the name absent: the rule is reached only when
  \<open>isNodeDiskSpecAndStatusSynced oldNode\<close> holds, and then every disk name of the old spec
  has a status entry, so the body of the loop does not take the branch of the missing
  entry.
\<close>

theorem Update_disk_status_lookup_present:
  "snd (Update pkg n oldObj newObj) \<noteq> Panics
   \<and> (isNodeDiskSpecAndStatusSynced oldNode \<longrightarrow> (name, disk) \<in> set (Disks (Spec oldNode))
        \<longrightarrow> map_of (DiskStatuses (Status oldNode)) name \<noteq> None
            \<and> Update_deleteDisk oldNode newNode (name, disk) \<noteq> Some ([], Panics))"
proof (intro conjI impI)
  show "snd (Update pkg n oldObj newObj) \<noteq> Panics"
    using Update_returns [of pkg n oldObj newObj] by auto
next
  assume s: "isNodeDiskSpecAndStatusSynced oldNode"
    and m: "(name, disk) \<in> set (Disks (Spec oldNode))"
  then show "map_of (DiskStatuses (Status oldNode)) name \<noteq> None"
    by (auto simp: synced_iff)
  then show "Update_deleteDisk oldNode newNode (name, disk) \<noteq> Some ([], Panics)"
    by (auto simp: Update_deleteDisk_def Let_def split: option.splits)
qed

text \<open>
  C8 on the removal of \<open>disk-1\<close> from \<open>node_a\<close>, in sync and out of sync. Out of sync the
  body of the loop alone would panic, and \<open>Update\<close> never runs it.
\<close>

theorem Update_disk_status_lookup_present_witness:
  "isNodeDiskSpecAndStatusSynced node_a
   \<and> (''disk-1'', disk_fs) \<in> set (Disks (Spec node_a))
   \<and> map_of (DiskStatuses (Status node_a)) ''disk-1'' \<noteq> None
   \<and> snd (Update pkg_a ds_a (NodeObj node_a) (NodeObj node_a_no_disks)) \<noteq> Panics
   \<and> Update_deleteDisk node_a_unsynced node_a_no_disks (''disk-1'', disk_fs) = Some ([], Panics)
   \<and> snd (Update pkg_a ds_a (NodeObj node_a_unsynced) (NodeObj node_a_no_disks)) \<noteq> Panics"
proof -
  have s: "isNodeDiskSpecAndStatusSynced node_a"
    by (simp add: sample_defs isNodeDiskSpecAndStatusSynced_def)
  have m: "(''disk-1'', disk_fs) \<in> set (Disks (Spec node_a))"
    by (simp add: sample_defs)
  have p: "Update_deleteDisk node_a_unsynced node_a_no_disks (''disk-1'', disk_fs)
             = Some ([], Panics)"
    by (simp add: sample_defs Update_deleteDisk_def)
  from Update_disk_status_lookup_present
         [of pkg_a ds_a "NodeObj node_a" "NodeObj node_a_no_disks" node_a "''disk-1''" disk_fs
             node_a_no_disks]
    Update_disk_status_lookup_present
         [of pkg_a ds_a "NodeObj node_a_unsynced" "NodeObj node_a_no_disks" node_a
             "''disk-1''" disk_fs node_a_no_disks]
    s m p
  show ?thesis by simp
qed

subsection \<open>C9: eviction excludes scheduling\<close>



subsection \<open>C10: block disks and the v2 data engine\<close>




end
